theory Spec2Isabelle
  imports Main
begin

section \<open>Data model\<close>

text \<open>
  The guardian daemon's \<open>SecurityService\<close> talks to two contracts (the deposit security
  module, DSM, and the staking router) through injected services. Everything it awaits is
  an external call that may reject; the service's own state is two cached prefixes. The
  model keeps the source's names. JavaScript numbers that hold block numbers, module ids
  and timestamps are integers here.
\<close>

text \<open>
  A \<open>HealthIndicatorResult\<close> as this indicator builds it: one key, its status and the two
  timestamps passed as data.
\<close>

record health_result =
  hr_key :: string
  hr_status :: string
  hr_blockTimestamp :: int
  hr_nowTimestamp :: int

datatype exn =
    Error string
  | TypeError string
  | HealthCheckError string health_result

datatype blockTag = TagName string | TagNumber int

datatype provider = JsonRpcProvider string

record wallet =
  wallet_privateKey :: string
  wallet_address :: string
  wallet_provider :: "provider option"

record contract =
  contract_address :: string
  contract_signer :: "wallet option"

text \<open>The \<open>Signature\<close> of \<open>@ethersproject/bytes\<close>; \<open>sig_vs\<close> is its field \<open>_vs\<close>.\<close>

record signature =
  sig_r :: string
  sig_s :: string
  sig_vs :: string
  sig_recoveryParam :: int
  sig_v :: int

record tx =
  tx_hash :: string

record block =
  block_number :: int
  block_hash :: string
  block_timestamp :: int

text \<open>
  The external calls the code awaits, with the arguments it passes. A \<open>blockTag option\<close>
  is the optional parameter \<open>blockTag?\<close>; \<open>TxWait\<close> carries the optional
  \<open>confirmations\<close> argument of \<open>tx.wait\<close>.
\<close>

datatype call =
    GetCachedDSMContract
  | GetCachedStakingRouterContract
  | ATTEST_MESSAGE_PREFIX contract
  | PAUSE_MESSAGE_PREFIX contract
  | GetMaxDeposits contract "blockTag option"
  | GetGuardians contract "blockTag option"
  | GetStakingModuleIsActive contract int "blockTag option"
  | PauseDeposits contract int int string string
  | TxWait tx "nat option"
  | WalletSignDepositData string string int int string int
  | WalletSignPauseData string int int
  | ProviderGetBlock

datatype level = Log | Warn | Err

type_synonym log_entry = "level \<times> string \<times> (string \<times> string) list"

text \<open>
  The injected collaborators that the service only reads: \<open>walletService.wallet\<close>,
  \<open>walletService.address\<close> and \<open>providerService.provider\<close>.
\<close>

record services =
  walletService_wallet :: wallet
  walletService_address :: string
  providerService_provider :: provider

text \<open>
  The state the code mutates: the two cached prefixes of \<open>SecurityService\<close>, the
  prometheus counter \<open>pauseAttempts\<close>, the logger's output and the external calls issued
  so far (oldest first). \<open>isExecuting\<close> is the flag of the \<open>OneAtTime\<close> lock.
\<close>

record state =
  cachedAttestMessagePrefix :: "string option"
  cachedPauseMessagePrefix :: "string option"
  pauseAttempts :: nat
  logger :: "log_entry list"
  calls :: "call list"
  isExecuting :: bool

text \<open>
  The outside world answers each external call, and may answer the same call differently
  as time goes by: every answer is a function of the calls issued before it. \<open>Inl\<close> is a
  rejected promise.
\<close>

record world =
  repo_getCachedDSMContract :: "call list \<Rightarrow> exn + contract"
  repo_getCachedStakingRouterContract :: "call list \<Rightarrow> exn + contract"
  dsm_ATTEST_MESSAGE_PREFIX :: "call list \<Rightarrow> contract \<Rightarrow> exn + string"
  dsm_PAUSE_MESSAGE_PREFIX :: "call list \<Rightarrow> contract \<Rightarrow> exn + string"
  dsm_getMaxDeposits :: "call list \<Rightarrow> contract \<Rightarrow> blockTag option \<Rightarrow> exn + int"
  dsm_getGuardians :: "call list \<Rightarrow> contract \<Rightarrow> blockTag option \<Rightarrow> exn + string list"
  dsm_pauseDeposits :: "call list \<Rightarrow> contract \<Rightarrow> int \<Rightarrow> int \<Rightarrow> string \<Rightarrow> string \<Rightarrow> exn + tx"
  tx_wait :: "call list \<Rightarrow> tx \<Rightarrow> nat option \<Rightarrow> exn + unit"
  router_getStakingModuleIsActive ::
    "call list \<Rightarrow> contract \<Rightarrow> int \<Rightarrow> blockTag option \<Rightarrow> exn + bool"
  wallet_signDepositData ::
    "call list \<Rightarrow> string \<Rightarrow> string \<Rightarrow> int \<Rightarrow> int \<Rightarrow> string \<Rightarrow> int \<Rightarrow> exn + signature"
  wallet_signPauseData :: "call list \<Rightarrow> string \<Rightarrow> int \<Rightarrow> int \<Rightarrow> exn + signature"
  provider_getBlock :: "call list \<Rightarrow> exn + block option"
  date_now :: "call list \<Rightarrow> int"

section \<open>Asynchronous code as state passing with errors\<close>

type_synonym 'a io = "state \<Rightarrow> (exn + 'a) \<times> state"

definition returnE :: "'a \<Rightarrow> 'a io" where
  "returnE x s = (Inr x, s)"

definition throwE :: "exn \<Rightarrow> 'a io" where
  "throwE e s = (Inl e, s)"

text \<open>Sequencing: a rejected \<open>await\<close> leaves the function at once.\<close>

definition bindE :: "'a io \<Rightarrow> ('a \<Rightarrow> 'b io) \<Rightarrow> 'b io" where
  "bindE m f s = (case m s of (Inl e, s') \<Rightarrow> (Inl e, s') | (Inr x, s') \<Rightarrow> f x s')"

text \<open>
  \<open>await c answer\<close> issues the external call \<open>c\<close>: the world answers from the calls made
  before, and the call is recorded.
\<close>

definition await :: "call \<Rightarrow> (call list \<Rightarrow> exn + 'a) \<Rightarrow> 'a io" where
  "await c answer s = (answer (calls s), s\<lparr>calls := calls s @ [c]\<rparr>)"

definition logger_log :: "string \<Rightarrow> (string \<times> string) list \<Rightarrow> unit io" where
  "logger_log msg meta s = (Inr (), s\<lparr>logger := logger s @ [(Log, msg, meta)]\<rparr>)"

definition logger_warn :: "string \<Rightarrow> (string \<times> string) list \<Rightarrow> unit io" where
  "logger_warn msg meta s = (Inr (), s\<lparr>logger := logger s @ [(Warn, msg, meta)]\<rparr>)"

definition pauseAttempts_inc :: "unit io" where
  "pauseAttempts_inc s = (Inr (), s\<lparr>pauseAttempts := pauseAttempts s + 1\<rparr>)"

section \<open>Library functions the code calls\<close>

text \<open>
  \<open>Array.prototype.indexOf\<close> with one argument: the scan starts at index 0, compares with
  strict equality and returns the first index that matches, or \<open>-1\<close>.
\<close>

fun indexOf_from :: "'a list \<Rightarrow> 'a \<Rightarrow> int \<Rightarrow> int" where
  "indexOf_from [] a k = - 1"
| "indexOf_from (x # xs) a k = (if x = a then k else indexOf_from xs a (k + 1))"

definition indexOf :: "'a list \<Rightarrow> 'a \<Rightarrow> int" where
  "indexOf xs a = indexOf_from xs a 0"

text \<open>\<open>wallet.connect(provider)\<close> and \<open>contract.connect(signer)\<close> of ethers return copies.\<close>

definition wallet_connect :: "wallet \<Rightarrow> provider \<Rightarrow> wallet" where
  "wallet_connect wl p = wl\<lparr>wallet_provider := Some p\<rparr>"

definition contract_connect :: "contract \<Rightarrow> wallet \<Rightarrow> contract" where
  "contract_connect c signer = c\<lparr>contract_signer := Some signer\<rparr>"

text \<open>
  \<open>BigNumber.toNumber\<close> of ethers throws when the value does not fit a JavaScript safe
  integer.
\<close>

definition MAX_SAFE_INTEGER :: int where
  "MAX_SAFE_INTEGER = 9007199254740991"

definition toNumber :: "int \<Rightarrow> int io" where
  "toNumber n = (if - MAX_SAFE_INTEGER \<le> n \<and> n \<le> MAX_SAFE_INTEGER then returnE n
                 else throwE (Error ''overflow''))"

text \<open>\<open>tx.wait(confirmations?)\<close> of ethers waits for one confirmation when none is given.\<close>

definition wait_confirmations :: "nat option \<Rightarrow> nat" where
  "wait_confirmations c = (case c of None \<Rightarrow> 1 | Some n \<Rightarrow> n)"

section \<open>SecurityService\<close>

definition getContractWithSigner :: "services \<Rightarrow> world \<Rightarrow> contract io" where
  "getContractWithSigner sv w =
     (let wallet = walletService_wallet sv;
          provider = providerService_provider sv;
          walletWithProvider = wallet_connect wallet provider
      in bindE (await GetCachedDSMContract (repo_getCachedDSMContract w)) (\<lambda>contract.
         returnE (contract_connect contract walletWithProvider)))"

text \<open>
  The two prefix getters. The test \<open>!this.cachedAttestMessagePrefix\<close> holds for \<open>null\<close> and
  for the empty string; in both cases the contract is read and the field assigned. The
  value returned is the field's.
\<close>

definition readAttestMessagePrefix :: "world \<Rightarrow> string io" where
  "readAttestMessagePrefix w =
     bindE (await GetCachedDSMContract (repo_getCachedDSMContract w)) (\<lambda>contract.
     bindE (await (ATTEST_MESSAGE_PREFIX contract)
              (\<lambda>h. dsm_ATTEST_MESSAGE_PREFIX w h contract)) (\<lambda>messagePrefix s'.
       (Inr messagePrefix, s'\<lparr>cachedAttestMessagePrefix := Some messagePrefix\<rparr>)))"

definition getAttestMessagePrefix :: "world \<Rightarrow> string io" where
  "getAttestMessagePrefix w s =
     (case cachedAttestMessagePrefix s of
        None \<Rightarrow> readAttestMessagePrefix w s
      | Some p \<Rightarrow> if p = [] then readAttestMessagePrefix w s else (Inr p, s))"

definition readPauseMessagePrefix :: "world \<Rightarrow> string io" where
  "readPauseMessagePrefix w =
     bindE (await GetCachedDSMContract (repo_getCachedDSMContract w)) (\<lambda>contract.
     bindE (await (PAUSE_MESSAGE_PREFIX contract)
              (\<lambda>h. dsm_PAUSE_MESSAGE_PREFIX w h contract)) (\<lambda>messagePrefix s'.
       (Inr messagePrefix, s'\<lparr>cachedPauseMessagePrefix := Some messagePrefix\<rparr>)))"

definition getPauseMessagePrefix :: "world \<Rightarrow> string io" where
  "getPauseMessagePrefix w s =
     (case cachedPauseMessagePrefix s of
        None \<Rightarrow> readPauseMessagePrefix w s
      | Some p \<Rightarrow> if p = [] then readPauseMessagePrefix w s else (Inr p, s))"

definition getMaxDeposits :: "world \<Rightarrow> blockTag option \<Rightarrow> int io" where
  "getMaxDeposits w blockTag =
     bindE (await GetCachedDSMContract (repo_getCachedDSMContract w)) (\<lambda>contract.
     bindE (await (GetMaxDeposits contract blockTag)
              (\<lambda>h. dsm_getMaxDeposits w h contract blockTag)) (\<lambda>maxDeposits.
     toNumber maxDeposits))"

definition getGuardians :: "world \<Rightarrow> blockTag option \<Rightarrow> string list io" where
  "getGuardians w blockTag =
     bindE (await GetCachedDSMContract (repo_getCachedDSMContract w)) (\<lambda>contract.
     bindE (await (GetGuardians contract blockTag)
              (\<lambda>h. dsm_getGuardians w h contract blockTag)) (\<lambda>guardians.
     returnE guardians))"

definition getGuardianIndex :: "services \<Rightarrow> world \<Rightarrow> blockTag option \<Rightarrow> int io" where
  "getGuardianIndex sv w blockTag =
     bindE (getGuardians w blockTag) (\<lambda>guardians.
       (let address = walletService_address sv
        in returnE (indexOf guardians address)))"

definition getGuardianAddress :: "services \<Rightarrow> string" where
  "getGuardianAddress sv = walletService_address sv"

definition initialize :: "services \<Rightarrow> world \<Rightarrow> blockTag \<Rightarrow> unit io" where
  "initialize sv w blockTag =
     bindE (getGuardianIndex sv w (Some blockTag)) (\<lambda>guardianIndex.
       (let address = walletService_address sv
        in if guardianIndex = - 1
           then logger_warn ''Your address is not in the Guardian List'' [(''address'', address)]
           else logger_log ''Your address is in the Guardian List'' [(''address'', address)]))"

definition signDepositData ::
  "world \<Rightarrow> string \<Rightarrow> int \<Rightarrow> int \<Rightarrow> string \<Rightarrow> int \<Rightarrow> signature io" where
  "signDepositData w depositRoot keysOpIndex blockNumber blockHash stakingModuleId =
     bindE (getAttestMessagePrefix w) (\<lambda>prefix.
     await (WalletSignDepositData prefix depositRoot keysOpIndex blockNumber blockHash
              stakingModuleId)
       (\<lambda>h. wallet_signDepositData w h prefix depositRoot keysOpIndex blockNumber blockHash
              stakingModuleId))"


definition isDepositsPaused :: "world \<Rightarrow> int \<Rightarrow> blockTag option \<Rightarrow> bool io" where
  "isDepositsPaused w stakingModuleId blockTag =
     bindE (await GetCachedStakingRouterContract (repo_getCachedStakingRouterContract w))
       (\<lambda>stakingRouterContract.
     bindE (await (GetStakingModuleIsActive stakingRouterContract stakingModuleId blockTag)
              (\<lambda>h. router_getStakingModuleIsActive w h stakingRouterContract stakingModuleId
                     blockTag)) (\<lambda>isActive.
     returnE (\<not> isActive)))"

text \<open>
  The method \<open>pauseDeposits\<close> as written, without its decorator. It returns nothing
  (\<open>void\<close>); \<open>tx.wait()\<close> is called without an argument.
\<close>

definition pauseDeposits :: "services \<Rightarrow> world \<Rightarrow> int \<Rightarrow> int \<Rightarrow> signature \<Rightarrow> unit io" where
  "pauseDeposits sv w blockNumber stakingModuleId signature =
     bindE (logger_warn ''Try to pause deposits'' []) (\<lambda>_.
     bindE pauseAttempts_inc (\<lambda>_.
     bindE (getContractWithSigner sv w) (\<lambda>contract.
       (let r = sig_r signature; vs = sig_vs signature
        in bindE (await (PauseDeposits contract blockNumber stakingModuleId r vs)
                    (\<lambda>h. dsm_pauseDeposits w h contract blockNumber stakingModuleId r vs))
             (\<lambda>tx.
           bindE (logger_warn ''Pause transaction sent'' [(''txHash'', tx_hash tx)]) (\<lambda>_.
           bindE (logger_warn ''Waiting for block confirmation'' []) (\<lambda>_.
           bindE (await (TxWait tx None) (\<lambda>h. tx_wait w h tx None)) (\<lambda>_.
           logger_warn ''Block confirmation received'' []))))))))"

subsection \<open>Overlapping calls of the prefix getters\<close>

text \<open>
  A getter tests its cached field, and when the field is falsy it awaits twice before it
  assigns the field: other calls run in between. The runtime is single-threaded, so a call
  runs from one \<open>await\<close> to the next without interruption. A call of a getter is either
  suspended at one of its two awaits or over; what runs between the awaits is the code of
  \<open>getAttestMessagePrefix\<close> (resp. \<open>getPauseMessagePrefix\<close>), line by line. The two
  fields are private and no other method reads or assigns them: \<open>signDepositData\<close> and
  \<open>signPauseData\<close> get the prefix by calling these getters.
\<close>

datatype prefix_kind = Attest | Pause

definition cached :: "prefix_kind \<Rightarrow> state \<Rightarrow> string option" where
  "cached k s = (case k of Attest \<Rightarrow> cachedAttestMessagePrefix s
                         | Pause \<Rightarrow> cachedPauseMessagePrefix s)"

definition assign_cached :: "prefix_kind \<Rightarrow> string \<Rightarrow> state \<Rightarrow> state" where
  "assign_cached k messagePrefix s =
     (case k of Attest \<Rightarrow> s\<lparr>cachedAttestMessagePrefix := Some messagePrefix\<rparr>
              | Pause \<Rightarrow> s\<lparr>cachedPauseMessagePrefix := Some messagePrefix\<rparr>)"

definition prefix_call :: "prefix_kind \<Rightarrow> contract \<Rightarrow> call" where
  "prefix_call k contract = (case k of Attest \<Rightarrow> ATTEST_MESSAGE_PREFIX contract
                                     | Pause \<Rightarrow> PAUSE_MESSAGE_PREFIX contract)"

definition getPrefix :: "prefix_kind \<Rightarrow> world \<Rightarrow> string io" where
  "getPrefix k w = (case k of Attest \<Rightarrow> getAttestMessagePrefix w
                            | Pause \<Rightarrow> getPauseMessagePrefix w)"

definition dsm_MESSAGE_PREFIX :: "prefix_kind \<Rightarrow> world \<Rightarrow> call list \<Rightarrow> contract \<Rightarrow> exn + string" where
  "dsm_MESSAGE_PREFIX k w = (case k of Attest \<Rightarrow> dsm_ATTEST_MESSAGE_PREFIX w
                                     | Pause \<Rightarrow> dsm_PAUSE_MESSAGE_PREFIX w)"

text \<open>
  \<open>ReadingContract\<close>: suspended at \<open>await this.repositoryService.getCachedDSMContract()\<close>.
  \<open>ReadingPrefix\<close>: suspended at \<open>await contract.ATTEST_MESSAGE_PREFIX()\<close> (resp.
  \<open>PAUSE_MESSAGE_PREFIX\<close>).
\<close>

datatype reading = ReadingContract | ReadingPrefix contract

datatype getter_call =
    GPending prefix_kind reading
  | GReturned prefix_kind string
  | GThrew prefix_kind exn

datatype getter_answer = GContract contract | GPrefix string

text \<open>
  \<open>GCall k\<close>: some caller calls the getter of kind \<open>k\<close>. \<open>GSettle i a\<close>: the promise
  that call \<open>i\<close> awaits is settled, rejected (\<open>Inl\<close>) or fulfilled.
\<close>

datatype getter_event = GCall prefix_kind | GSettle nat "exn + getter_answer"

record getters =
  g_state :: state
  g_calls :: "getter_call list"

fun getter_resume ::
  "nat \<Rightarrow> prefix_kind \<Rightarrow> reading \<Rightarrow> getter_answer \<Rightarrow> getters \<Rightarrow> getters option" where
  "getter_resume i k ReadingContract (GContract contract) g =
     Some \<lparr>g_state = (g_state g)\<lparr>calls := calls (g_state g) @ [prefix_call k contract]\<rparr>,
           g_calls = (g_calls g)[i := GPending k (ReadingPrefix contract)]\<rparr>"
| "getter_resume i k (ReadingPrefix contract) (GPrefix messagePrefix) g =
     Some \<lparr>g_state = assign_cached k messagePrefix (g_state g),
           g_calls = (g_calls g)[i := GReturned k messagePrefix]\<rparr>"
| "getter_resume i k r v g = None"

fun getter_step :: "getter_event \<Rightarrow> getters \<Rightarrow> getters option" where
  "getter_step (GCall k) g =
     (let s = g_state g;
          read = \<lparr>g_state = s\<lparr>calls := calls s @ [GetCachedDSMContract]\<rparr>,
                  g_calls = g_calls g @ [GPending k ReadingContract]\<rparr>
      in case cached k s of
           None \<Rightarrow> Some read
         | Some p \<Rightarrow> if p = [] then Some read
                     else Some (g\<lparr>g_calls := g_calls g @ [GReturned k p]\<rparr>))"
| "getter_step (GSettle i a) g =
     (if length (g_calls g) \<le> i then None
      else
        (case g_calls g ! i of
           GPending k r \<Rightarrow>
             (case a of
                Inl e \<Rightarrow> Some (g\<lparr>g_calls := (g_calls g)[i := GThrew k e]\<rparr>)
              | Inr v \<Rightarrow> getter_resume i k r v g)
         | _ \<Rightarrow> None))"

fun getter_run :: "getter_event list \<Rightarrow> getters \<Rightarrow> getters option" where
  "getter_run [] g = Some g"
| "getter_run (e # es) g =
     (case getter_step e g of None \<Rightarrow> None | Some g' \<Rightarrow> getter_run es g')"

definition getter_start :: "state \<Rightarrow> getters" where
  "getter_start s = \<lparr>g_state = s, g_calls = []\<rparr>"

definition kind_of :: "getter_call \<Rightarrow> prefix_kind" where
  "kind_of v = (case v of GPending k r \<Rightarrow> k | GReturned k p \<Rightarrow> k | GThrew k e \<Rightarrow> k)"

text \<open>A call of the getter of kind \<open>k\<close> that is still reading.\<close>

definition is_reading :: "prefix_kind \<Rightarrow> getter_call \<Rightarrow> bool" where
  "is_reading k v = (case v of GPending k' r \<Rightarrow> k' = k | _ \<Rightarrow> False)"


text \<open>The reads of the prefix of kind \<open>k\<close> among the calls issued.\<close>

definition is_prefix_read :: "prefix_kind \<Rightarrow> call \<Rightarrow> bool" where
  "is_prefix_read k c =
     (case c of ATTEST_MESSAGE_PREFIX contract \<Rightarrow> k = Attest
              | PAUSE_MESSAGE_PREFIX contract \<Rightarrow> k = Pause
              | _ \<Rightarrow> False)"


section \<open>ProviderHealthIndicator\<close>

definition try_catch :: "'a io \<Rightarrow> (exn \<Rightarrow> 'a io) \<Rightarrow> 'a io" where
  "try_catch m handler s =
     (case m s of (Inl error, s') \<Rightarrow> handler error s' | (Inr x, s') \<Rightarrow> (Inr x, s'))"

text \<open>
  \<open>providerService.getBlock()\<close> may reject, and the provider may answer \<open>null\<close>; reading
  \<open>.timestamp\<close> of \<open>null\<close> throws a \<open>TypeError\<close> inside the \<open>try\<close>.
\<close>

definition getBlockTimestamp :: "world \<Rightarrow> int io" where
  "getBlockTimestamp w =
     try_catch
       (bindE (await ProviderGetBlock (provider_getBlock w)) (\<lambda>block.
          (case block of
             None \<Rightarrow> throwE (TypeError ''Cannot read properties of null'')
           | Some b \<Rightarrow> returnE (block_timestamp b))))
       (\<lambda>error. returnE (- 1))"

text \<open>\<open>Math.floor(Date.now() / 1000)\<close>; the clock is read, not awaited.\<close>

definition getNowTimestamp :: "world \<Rightarrow> int io" where
  "getNowTimestamp w s = (Inr (date_now w (calls s) div 1000), s)"

text \<open>\<open>HealthIndicator.getStatus\<close> of \<open>@nestjs/terminus\<close>.\<close>

definition getStatus :: "string \<Rightarrow> bool \<Rightarrow> int \<Rightarrow> int \<Rightarrow> health_result" where
  "getStatus key isHealthy blockTimestamp nowTimestamp =
     \<lparr>hr_key = key, hr_status = (if isHealthy then ''up'' else ''down''),
      hr_blockTimestamp = blockTimestamp, hr_nowTimestamp = nowTimestamp\<rparr>"

text \<open>
  \<open>MAX_BLOCK_DELAY_SECONDS\<close> comes from \<open>health.constants\<close>; it is a parameter here.
\<close>

definition isHealthy :: "int \<Rightarrow> world \<Rightarrow> string \<Rightarrow> health_result io" where
  "isHealthy MAX_BLOCK_DELAY_SECONDS w key =
     bindE (getBlockTimestamp w) (\<lambda>blockTimestamp.
     bindE (getNowTimestamp w) (\<lambda>nowTimestamp.
       (let deltaTimestamp = \<bar>nowTimestamp - blockTimestamp\<bar>;
            isHealthy = deltaTimestamp < MAX_BLOCK_DELAY_SECONDS;
            result = getStatus key isHealthy blockTimestamp nowTimestamp
        in if isHealthy then returnE result
           else throwE (HealthCheckError ''Provider check failed'' result))))"

section \<open>The OneAtTime lock\<close>

text \<open>
  Modelled from the spec: the decorator \<open>OneAtTime\<close> of \<open>common/decorators\<close> is not among the
  sources. The spec describes it as a serial mutex on the pause entry point: at most one
  pause submission is in flight, a call made while one is pending skips the attempt, and
  the submitter is idle again when an attempt completes, whether it succeeded or failed.
\<close>

definition OneAtTime :: "unit io \<Rightarrow> unit io" where
  "OneAtTime method s =
     (if isExecuting s then (Inr (), s)
      else (case method (s\<lparr>isExecuting := True\<rparr>) of
              (result, s') \<Rightarrow> (result, s'\<lparr>isExecuting := False\<rparr>)))"

definition pauseDeposits_OneAtTime ::
  "services \<Rightarrow> world \<Rightarrow> int \<Rightarrow> int \<Rightarrow> signature \<Rightarrow> unit io" where
  "pauseDeposits_OneAtTime sv w blockNumber stakingModuleId signature =
     OneAtTime (pauseDeposits sv w blockNumber stakingModuleId signature)"

subsection \<open>Interleaved invocations\<close>

text \<open>
  The runtime is single-threaded: an invocation runs until its next \<open>await\<close> and other
  code runs while it is suspended. An invocation of the decorated \<open>pauseDeposits\<close> is suspended
  at one of the three awaits of the method, or it is over.
\<close>

datatype awaiting =
    AwaitContract int int signature
  | AwaitSubmit
  | AwaitConfirm tx

datatype invocation = Pending awaiting | Returned | Threw exn | Skipped

datatype answer = AContract contract | ATx tx | AUnit

text \<open>
  \<open>Invoke\<close>: some caller invokes the method. \<open>Settle i a\<close>: the promise that invocation
  \<open>i\<close> awaits is settled, rejected (\<open>Inl\<close>) or fulfilled.
\<close>

datatype event = Invoke int int signature | Settle nat "exn + answer"

record system =
  sys_state :: state
  sys_invocations :: "invocation list"

text \<open>
  Modelled from the spec: the release of the flag when an invocation is over is the
  decorator's, which is not among the sources; the spec has the submitter idle again after
  an attempt, successful or failed.
\<close>

definition finish :: "nat \<Rightarrow> invocation \<Rightarrow> state \<Rightarrow> system \<Rightarrow> system" where
  "finish i outcome s sys =
     \<lparr>sys_state = s\<lparr>isExecuting := False\<rparr>,
      sys_invocations = (sys_invocations sys)[i := outcome]\<rparr>"

definition suspend :: "nat \<Rightarrow> awaiting \<Rightarrow> state \<Rightarrow> system \<Rightarrow> system" where
  "suspend i a s sys =
     \<lparr>sys_state = s, sys_invocations = (sys_invocations sys)[i := Pending a]\<rparr>"

text \<open>
  \<open>resume\<close>: the awaited call was fulfilled and the method runs on to its next \<open>await\<close>,
  or to its end.
\<close>

fun resume :: "services \<Rightarrow> nat \<Rightarrow> awaiting \<Rightarrow> answer \<Rightarrow> state \<Rightarrow> system \<Rightarrow> system option" where
  "resume sv i (AwaitContract blockNumber stakingModuleId signature) (AContract c) s sys =
     (let contract = contract_connect c
            (wallet_connect (walletService_wallet sv) (providerService_provider sv))
      in Some (suspend i AwaitSubmit
           (s\<lparr>calls := calls s @ [PauseDeposits contract blockNumber stakingModuleId
                  (sig_r signature) (sig_vs signature)]\<rparr>) sys))"
| "resume sv i AwaitSubmit (ATx tx) s sys =
     Some (suspend i (AwaitConfirm tx)
       (s\<lparr>logger := logger s @
             [(Warn, ''Pause transaction sent'', [(''txHash'', tx_hash tx)]),
              (Warn, ''Waiting for block confirmation'', [])],
           calls := calls s @ [TxWait tx None]\<rparr>) sys)"
| "resume sv i (AwaitConfirm tx) AUnit s sys =
     Some (finish i Returned
       (s\<lparr>logger := logger s @ [(Warn, ''Block confirmation received'', [])]\<rparr>) sys)"
| "resume sv i p v s sys = None"

text \<open>
  Modelled from the spec: the test of the flag on \<open>Invoke\<close> is the decorator's, which is not
  among the sources; the spec has a call made while a submission is pending skip the
  attempt. What runs up to the first \<open>await\<close> and between two awaits is the method's own
  code.
\<close>

fun step :: "services \<Rightarrow> event \<Rightarrow> system \<Rightarrow> system option" where
  "step sv (Invoke blockNumber stakingModuleId signature) sys =
     (let s = sys_state sys in
      if isExecuting s then Some (sys\<lparr>sys_invocations := sys_invocations sys @ [Skipped]\<rparr>)
      else
        Some \<lparr>sys_state = s\<lparr>isExecuting := True,
                 logger := logger s @ [(Warn, ''Try to pause deposits'', [])],
                 pauseAttempts := pauseAttempts s + 1,
                 calls := calls s @ [GetCachedDSMContract]\<rparr>,
              sys_invocations = sys_invocations sys @
                 [Pending (AwaitContract blockNumber stakingModuleId signature)]\<rparr>)"
| "step sv (Settle i a) sys =
     (let s = sys_state sys in
      if length (sys_invocations sys) \<le> i then None
      else
        (case sys_invocations sys ! i of
           Pending p \<Rightarrow>
             (case a of
                Inl e \<Rightarrow> Some (finish i (Threw e) s sys)
              | Inr v \<Rightarrow> resume sv i p v s sys)
         | _ \<Rightarrow> None))"

fun run :: "services \<Rightarrow> event list \<Rightarrow> system \<Rightarrow> system option" where
  "run sv [] sys = Some sys"
| "run sv (e # es) sys = (case step sv e sys of None \<Rightarrow> None | Some sys' \<Rightarrow> run sv es sys')"

definition is_pending :: "invocation \<Rightarrow> bool" where
  "is_pending v = (case v of Pending p \<Rightarrow> True | _ \<Rightarrow> False)"

definition in_flight :: "system \<Rightarrow> nat" where
  "in_flight sys = length (filter is_pending (sys_invocations sys))"

definition is_submission :: "call \<Rightarrow> bool" where
  "is_submission c = (case c of PauseDeposits k b m r vs \<Rightarrow> True | _ \<Rightarrow> False)"

definition start :: "state \<Rightarrow> system" where
  "start s = \<lparr>sys_state = s\<lparr>isExecuting := False\<rparr>, sys_invocations = []\<rparr>"

text \<open>The lock's flag is set exactly while one invocation is suspended.\<close>

definition lock_inv :: "system \<Rightarrow> bool" where
  "lock_inv sys = (in_flight sys = (if isExecuting (sys_state sys) then 1 else 0))"

subsection \<open>Retrying across blocks\<close>

text \<open>
  Modelled from the spec: the block loop that reacts to a detected conflict is not among
  the sources, where \<open>pauseDeposits\<close> makes one attempt. The spec, for one staking module:
  on a conflict the pipeline signs the pause message and submits the on-chain pause; a
  module whose submission is pending skips further attempts until it completes; a
  rejection because the module is paused already is swallowed and counts as success; all
  other errors are logged, and a failed attempt is retried on the next block's pipeline
  invocation. How a rejection is recognised as "already paused" is not said: the test is
  the parameter \<open>already_paused\<close>. Signing is \<open>signPauseData\<close> and submitting is the
  decorated \<open>pauseDeposits\<close>.
\<close>

fun exn_message :: "exn \<Rightarrow> string" where
  "exn_message (Error msg) = msg"
| "exn_message (TypeError msg) = msg"
| "exn_message (HealthCheckError msg causes) = msg"

definition logger_error :: "exn \<Rightarrow> state \<Rightarrow> state" where
  "logger_error e s = s\<lparr>logger := logger s @ [(Err, exn_message e, [])]\<rparr>"





definition is_error :: "log_entry \<Rightarrow> bool" where
  "is_error entry = (fst entry = Err)"

definition errors_logged :: "state \<Rightarrow> nat" where
  "errors_logged s = length (filter is_error (logger s))"


section \<open>Configuration\<close>

text \<open>
  The interface \<open>Configuration\<close>: every property with its type, in the order of the
  declaration. No property is optional.
\<close>

definition Configuration :: "(string \<times> string) list" where
  "Configuration =
     [(''NODE_ENV'', ''string''), (''PORT'', ''number''), (''LOG_LEVEL'', ''string''),
      (''LOG_FORMAT'', ''string''), (''RPC_URL'', ''string''),
      (''WALLET_PRIVATE_KEY'', ''string''), (''PUBSUB_SERVICE'', ''PubsubService''),
      (''KAFKA_CLIENT_ID'', ''string''), (''BROKER_TOPIC'', ''string''),
      (''KAFKA_BROKER_ADDRESS_1'', ''string''), (''KAFKA_BROKER_ADDRESS_2'', ''string''),
      (''KAFKA_SSL'', ''boolean''), (''KAFKA_SASL_MECHANISM'', ''SASLMechanism''),
      (''KAFKA_USERNAME'', ''string''), (''KAFKA_PASSWORD'', ''string''),
      (''RABBITMQ_URL'', ''string''), (''RABBITMQ_LOGIN'', ''string''),
      (''RABBITMQ_PASSCODE'', ''string''),
      (''REGISTRY_KEYS_QUERY_BATCH_SIZE'', ''number''),
      (''REGISTRY_KEYS_QUERY_CONCURRENCY'', ''number''),
      (''KEYS_API_PORT'', ''number''), (''KEYS_API_HOST'', ''string'')]"

definition recognized :: "string \<Rightarrow> bool" where
  "recognized name = (name \<in> set (map fst Configuration))"

text \<open>
  The variables the compose file passes to the two services: \<open>council_daemon\<close> and
  \<open>keys_api_service_api\<close>.
\<close>

definition council_daemon_environment :: "string list" where
  "council_daemon_environment =
     [''PORT'', ''LOG_LEVEL'', ''LOG_FORMAT'', ''RPC_URL'', ''WALLET_PRIVATE_KEY'',
      ''KEYS_API_HOST'', ''KEYS_API_PORT'', ''PUBSUB_SERVICE'', ''RABBITMQ_URL'',
      ''RABBITMQ_LOGIN'', ''RABBITMQ_PASSCODE'']"

definition keys_api_service_api_environment :: "string list" where
  "keys_api_service_api_environment =
     [''PORT'', ''LOG_LEVEL'', ''LOG_FORMAT'', ''CHAIN_ID'', ''PROVIDERS_URLS'',
      ''VALIDATOR_REGISTRY_ENABLE'', ''DB_NAME'', ''DB_PORT'', ''DB_HOST'', ''DB_USER'',
      ''DB_PASSWORD'']"

section \<open>Concrete services, states and worlds\<close>

definition dsm0 :: contract where
  "dsm0 = \<lparr>contract_address = ''0xD5M'', contract_signer = None\<rparr>"

definition router0 :: contract where
  "router0 = \<lparr>contract_address = ''0x5R'', contract_signer = None\<rparr>"

definition sv0 :: services where
  "sv0 = \<lparr>walletService_wallet =
            \<lparr>wallet_privateKey = ''0x01'', wallet_address = ''0xB'', wallet_provider = None\<rparr>,
          walletService_address = ''0xB'',
          providerService_provider = JsonRpcProvider ''http://localhost:8545''\<rparr>"

definition sig0 :: signature where
  "sig0 = \<lparr>sig_r = ''0x11'', sig_s = ''0x22'', sig_vs = ''0x33'', sig_recoveryParam = 0,
           sig_v = 27\<rparr>"

definition tx0 :: tx where
  "tx0 = \<lparr>tx_hash = ''0x7a''\<rparr>"

text \<open>A fresh \<open>SecurityService\<close>: both cached prefixes are \<open>null\<close>.\<close>

definition initial_state :: state where
  "initial_state = \<lparr>cachedAttestMessagePrefix = None, cachedPauseMessagePrefix = None,
     pauseAttempts = 0, logger = [], calls = [], isExecuting = False\<rparr>"

text \<open>A world in which every call succeeds; the head block is 12 seconds old.\<close>

definition world_ok :: world where
  "world_ok = \<lparr>
     repo_getCachedDSMContract = (\<lambda>h. Inr dsm0),
     repo_getCachedStakingRouterContract = (\<lambda>h. Inr router0),
     dsm_ATTEST_MESSAGE_PREFIX = (\<lambda>h c. Inr ''0xa77e''),
     dsm_PAUSE_MESSAGE_PREFIX = (\<lambda>h c. Inr ''0x9a05''),
     dsm_getMaxDeposits = (\<lambda>h c t. Inr 150),
     dsm_getGuardians = (\<lambda>h c t. Inr [''0xA'', ''0xB'', ''0xC'']),
     dsm_pauseDeposits = (\<lambda>h c b m r vs. Inr tx0),
     tx_wait = (\<lambda>h t n. Inr ()),
     router_getStakingModuleIsActive = (\<lambda>h c m t. Inr (m = 1)),
     wallet_signDepositData = (\<lambda>h p d k b bh m. Inr sig0),
     wallet_signPauseData = (\<lambda>h p b m. Inr sig0),
     provider_getBlock = (\<lambda>h. Inr (Some \<lparr>block_number = 18500000, block_hash = ''0xb10c'',
                                   block_timestamp = 1700000000\<rparr>)),
     date_now = (\<lambda>h. 1700000012345)\<rparr>"

text \<open>The same world with an endpoint that rejects every call.\<close>

definition world_down :: world where
  "world_down = world_ok\<lparr>
     repo_getCachedDSMContract := (\<lambda>h. Inl (Error ''timeout'')),
     repo_getCachedStakingRouterContract := (\<lambda>h. Inl (Error ''timeout'')),
     provider_getBlock := (\<lambda>h. Inl (Error ''timeout''))\<rparr>"



text \<open>The DSM contract rejects the pause: the module is paused already.\<close>

definition world_paused :: world where
  "world_paused = world_ok\<lparr>
     dsm_pauseDeposits := (\<lambda>h c b m r vs. Inl (Error ''deposits already paused'')),
     router_getStakingModuleIsActive := (\<lambda>h c m t. Inr False)\<rparr>"

text \<open>The first submission of a pause fails; one that is tried again goes through.\<close>

definition world_retry :: world where
  "world_retry = world_ok\<lparr>
     dsm_pauseDeposits :=
       (\<lambda>h c b m r vs. if \<exists>x \<in> set h. is_submission x then Inr tx0
                       else Inl (Error ''nonce too low''))\<rparr>"



section \<open>The on-chain pause submitter\<close>

text \<open>
  The method unfolded: what it leaves behind and what it returns, by the answers of the
  three calls it awaits.
\<close>

lemma pauseDeposits_run:
  "pauseDeposits sv w blockNumber stakingModuleId signature s =
    (let s1 = s\<lparr>logger := logger s @ [(Warn, ''Try to pause deposits'', [])],
                 pauseAttempts := pauseAttempts s + 1\<rparr>;
         h1 = calls s @ [GetCachedDSMContract]
     in case repo_getCachedDSMContract w (calls s) of
          Inl e \<Rightarrow> (Inl e, s1\<lparr>calls := h1\<rparr>)
        | Inr c \<Rightarrow>
           (let contract = contract_connect c
                  (wallet_connect (walletService_wallet sv) (providerService_provider sv));
                submit = PauseDeposits contract blockNumber stakingModuleId
                           (sig_r signature) (sig_vs signature);
                h2 = h1 @ [submit]
            in case dsm_pauseDeposits w h1 contract blockNumber stakingModuleId
                      (sig_r signature) (sig_vs signature) of
                 Inl e \<Rightarrow> (Inl e, s1\<lparr>calls := h2\<rparr>)
               | Inr tx \<Rightarrow>
                  (let s2 = s1\<lparr>logger := logger s1 @
                              [(Warn, ''Pause transaction sent'', [(''txHash'', tx_hash tx)]),
                               (Warn, ''Waiting for block confirmation'', [])],
                            calls := h2 @ [TxWait tx None]\<rparr>
                   in case tx_wait w h2 tx None of
                        Inl e \<Rightarrow> (Inl e, s2)
                      | Inr u \<Rightarrow> (Inr (), s2\<lparr>logger := logger s2 @
                                  [(Warn, ''Block confirmation received'', [])]\<rparr>))))"
  by (simp add: pauseDeposits_def getContractWithSigner_def bindE_def await_def returnE_def
      logger_warn_def pauseAttempts_inc_def Let_def split: sum.splits)

text \<open>
  Claim C1. For every signature, \<open>pauseDeposits\<close> builds the contract call
  \<open>pauseDeposits(blockNumber, stakingModuleId, {r, vs})\<close> from the signature's \<open>r\<close> and
  \<open>_vs\<close> and submits it through the DSM contract connected to the wallet that is
  connected to the provider; it returns only after one \<open>tx.wait()\<close>, which waits for one
  confirmation. First conjunct: when the three calls succeed the method returns, having
  issued exactly these calls. Second: whenever it returns, it has issued exactly these
  calls and the wait succeeded. Third: in every run, failed or not, a submission it
  issues is this call.
\<close>

theorem pauseDeposits_submits_signed_call:
  "(\<forall>c tx.
      repo_getCachedDSMContract w (calls s) = Inr c \<and>
      dsm_pauseDeposits w (calls s @ [GetCachedDSMContract])
        (contract_connect c
          (wallet_connect (walletService_wallet sv) (providerService_provider sv)))
        blockNumber stakingModuleId (sig_r signature) (sig_vs signature) = Inr tx \<and>
      tx_wait w (calls s @ [GetCachedDSMContract,
        PauseDeposits (contract_connect c
          (wallet_connect (walletService_wallet sv) (providerService_provider sv)))
          blockNumber stakingModuleId (sig_r signature) (sig_vs signature)]) tx None = Inr ()
      \<longrightarrow>
      fst (pauseDeposits sv w blockNumber stakingModuleId signature s) = Inr () \<and>
      calls (snd (pauseDeposits sv w blockNumber stakingModuleId signature s)) =
        calls s @ [GetCachedDSMContract,
          PauseDeposits (contract_connect c
            (wallet_connect (walletService_wallet sv) (providerService_provider sv)))
            blockNumber stakingModuleId (sig_r signature) (sig_vs signature),
          TxWait tx None])
   \<and> (fst (pauseDeposits sv w blockNumber stakingModuleId signature s) = Inr () \<longrightarrow>
       (\<exists>c tx n. repo_getCachedDSMContract w (calls s) = Inr c \<and>
          calls (snd (pauseDeposits sv w blockNumber stakingModuleId signature s)) =
            calls s @ [GetCachedDSMContract,
              PauseDeposits (contract_connect c
                (wallet_connect (walletService_wallet sv) (providerService_provider sv)))
                blockNumber stakingModuleId (sig_r signature) (sig_vs signature),
              TxWait tx n] \<and>
          wait_confirmations n = 1 \<and>
          tx_wait w (calls s @ [GetCachedDSMContract,
            PauseDeposits (contract_connect c
              (wallet_connect (walletService_wallet sv) (providerService_provider sv)))
              blockNumber stakingModuleId (sig_r signature) (sig_vs signature)]) tx n
            = Inr ()))
   \<and> (\<forall>x \<in> set (drop (length (calls s))
                 (calls (snd (pauseDeposits sv w blockNumber stakingModuleId signature s)))).
        is_submission x \<longrightarrow>
        (\<exists>c. repo_getCachedDSMContract w (calls s) = Inr c \<and>
           x = PauseDeposits (contract_connect c
                 (wallet_connect (walletService_wallet sv) (providerService_provider sv)))
                 blockNumber stakingModuleId (sig_r signature) (sig_vs signature)))"
  (is "?A \<and> ?B \<and> ?C")
proof (intro conjI)
  show ?A
    by (simp add: pauseDeposits_run Let_def)
  show ?B
    by (auto simp: pauseDeposits_run Let_def wait_confirmations_def split: sum.splits)
  show ?C
    by (auto simp: pauseDeposits_run Let_def is_submission_def split: sum.splits)
qed


text \<open>The run in the world where every call succeeds.\<close>

theorem pauseDeposits_submits_signed_call_witness:
  "fst (pauseDeposits sv0 world_ok 100 1 sig0 initial_state) = Inr () \<and>
   calls (snd (pauseDeposits sv0 world_ok 100 1 sig0 initial_state)) =
     [GetCachedDSMContract,
      PauseDeposits
        \<lparr>contract_address = ''0xD5M'',
         contract_signer = Some \<lparr>wallet_privateKey = ''0x01'', wallet_address = ''0xB'',
           wallet_provider = Some (JsonRpcProvider ''http://localhost:8545'')\<rparr>\<rparr>
        100 1 ''0x11'' ''0x33'',
      TxWait tx0 None]"
proof -
  let ?signed = "contract_connect dsm0
     (wallet_connect (walletService_wallet sv0) (providerService_provider sv0))"
  have hyp: "repo_getCachedDSMContract world_ok (calls initial_state) = Inr dsm0 \<and>
      dsm_pauseDeposits world_ok (calls initial_state @ [GetCachedDSMContract]) ?signed
        100 1 (sig_r sig0) (sig_vs sig0) = Inr tx0 \<and>
      tx_wait world_ok (calls initial_state @ [GetCachedDSMContract,
        PauseDeposits ?signed 100 1 (sig_r sig0) (sig_vs sig0)]) tx0 None = Inr ()"
    by (simp add: world_ok_def)
  from pauseDeposits_submits_signed_call
    [where w = world_ok and s = initial_state and sv = sv0 and blockNumber = 100
       and stakingModuleId = 1 and signature = sig0]
  have "fst (pauseDeposits sv0 world_ok 100 1 sig0 initial_state) = Inr () \<and>
      calls (snd (pauseDeposits sv0 world_ok 100 1 sig0 initial_state)) =
        calls initial_state @ [GetCachedDSMContract,
          PauseDeposits ?signed 100 1 (sig_r sig0) (sig_vs sig0), TxWait tx0 None]"
    using hyp by blast
  then show ?thesis
    by (simp add: initial_state_def sv0_def sig0_def dsm0_def contract_connect_def
        wallet_connect_def)
qed

text \<open>
  Claim C2, as amended. The method as written increments the pause-attempt counter
  exactly once in every run, on the success path as on every failure. Its body handles no
  failure: a rejection because the module is paused already is no special case; whatever
  error one of the three awaited calls rejects with is thrown on unchanged, and the body
  writes warnings only, no error entry.
\<close>

theorem pauseDeposits_counts_every_attempt:
  "pauseAttempts (snd (pauseDeposits sv w blockNumber stakingModuleId signature s)) =
     pauseAttempts s + 1
   \<and> (fst (pauseDeposits sv w blockNumber stakingModuleId signature s) = Inl e \<longleftrightarrow>
        (repo_getCachedDSMContract w (calls s) = Inl e
         \<or> (\<exists>c. repo_getCachedDSMContract w (calls s) = Inr c \<and>
              dsm_pauseDeposits w (calls s @ [GetCachedDSMContract])
                (contract_connect c
                  (wallet_connect (walletService_wallet sv) (providerService_provider sv)))
                blockNumber stakingModuleId (sig_r signature) (sig_vs signature) = Inl e)
         \<or> (\<exists>c tx. repo_getCachedDSMContract w (calls s) = Inr c \<and>
              dsm_pauseDeposits w (calls s @ [GetCachedDSMContract])
                (contract_connect c
                  (wallet_connect (walletService_wallet sv) (providerService_provider sv)))
                blockNumber stakingModuleId (sig_r signature) (sig_vs signature) = Inr tx \<and>
              tx_wait w (calls s @ [GetCachedDSMContract,
                PauseDeposits (contract_connect c
                  (wallet_connect (walletService_wallet sv) (providerService_provider sv)))
                  blockNumber stakingModuleId (sig_r signature) (sig_vs signature)]) tx None
                = Inl e)))
   \<and> (\<forall>x \<in> set (drop (length (logger s))
                 (logger (snd (pauseDeposits sv w blockNumber stakingModuleId signature s)))).
        fst x = Warn)"
  (is "?A \<and> ?B \<and> ?C")
proof (intro conjI)
  show ?A
    by (simp add: pauseDeposits_run Let_def split: sum.splits)
  show ?B
    by (auto simp: pauseDeposits_run Let_def split: sum.splits)
  show ?C
    by (auto simp: pauseDeposits_run Let_def split: sum.splits)
qed

text \<open>The run in which the contract rejects the pause because the module is paused.\<close>

theorem pauseDeposits_counts_every_attempt_witness:
  "pauseAttempts (snd (pauseDeposits sv0 world_paused 100 1 sig0 initial_state)) = 1 \<and>
   fst (pauseDeposits sv0 world_paused 100 1 sig0 initial_state) =
     Inl (Error ''deposits already paused'') \<and>
   logger (snd (pauseDeposits sv0 world_paused 100 1 sig0 initial_state)) =
     [(Warn, ''Try to pause deposits'', [])]"
proof -
  note inst = pauseDeposits_counts_every_attempt
    [where w = world_paused and s = initial_state and sv = sv0 and blockNumber = 100
       and stakingModuleId = 1 and signature = sig0
       and e = "Error ''deposits already paused''"]
  have hyp: "repo_getCachedDSMContract world_paused (calls initial_state) = Inr dsm0 \<and>
      dsm_pauseDeposits world_paused (calls initial_state @ [GetCachedDSMContract])
        (contract_connect dsm0
          (wallet_connect (walletService_wallet sv0) (providerService_provider sv0)))
        100 1 (sig_r sig0) (sig_vs sig0) = Inl (Error ''deposits already paused'')"
    by (simp add: world_paused_def world_ok_def)
  have a: "pauseAttempts (snd (pauseDeposits sv0 world_paused 100 1 sig0 initial_state)) = 1"
    using inst by (simp add: initial_state_def)
  have b: "fst (pauseDeposits sv0 world_paused 100 1 sig0 initial_state) =
      Inl (Error ''deposits already paused'')"
    using inst hyp by blast
  have c: "logger (snd (pauseDeposits sv0 world_paused 100 1 sig0 initial_state)) =
      [(Warn, ''Try to pause deposits'', [])]"
    by (simp add: pauseDeposits_run Let_def world_paused_def world_ok_def initial_state_def)
  show ?thesis using a b c by simp
qed

text \<open>
  Claim C2 as stated fails on the success path: the method returns and the counter has
  gone from 0 to 1.
\<close>

theorem pauseDeposits_success_counterexample:
  "fst (pauseDeposits sv0 world_ok 100 1 sig0 initial_state) = Inr () \<and>
   pauseAttempts initial_state = 0 \<and>
   pauseAttempts (snd (pauseDeposits sv0 world_ok 100 1 sig0 initial_state)) = 1"
  by (simp add: pauseDeposits_run Let_def world_ok_def initial_state_def)

section \<open>The guardian-state probe\<close>

lemma indexOf_from_absent: "0 \<le> k \<Longrightarrow> indexOf_from xs a k = - 1 \<longleftrightarrow> a \<notin> set xs"
  by (induction xs arbitrary: k) auto

lemma indexOf_from_present:
  "a \<in> set xs \<Longrightarrow> k \<le> indexOf_from xs a k \<and> indexOf_from xs a k < k + int (length xs)
     \<and> xs ! nat (indexOf_from xs a k - k) = a
     \<and> (\<forall>j < nat (indexOf_from xs a k - k). xs ! j \<noteq> a)"
proof (induction xs arbitrary: k)
  case Nil
  then show ?case by simp
next
  case (Cons x xs)
  show ?case
  proof (cases "x = a")
    case True
    then show ?thesis by simp
  next
    case False
    with Cons.prems have mem: "a \<in> set xs" by simp
    note ih = Cons.IH [OF mem, of "k + 1"]
    let ?r = "indexOf_from xs a (k + 1)"
    have eq: "nat (?r - k) = Suc (nat (?r - (k + 1)))" using ih by linarith
    show ?thesis using False ih eq
      by (auto simp: nth_Cons split: nat.splits)
  qed
qed

lemma indexOf_absent: "indexOf xs a = - 1 \<longleftrightarrow> a \<notin> set xs"
  by (simp add: indexOf_def indexOf_from_absent)

lemma indexOf_present:
  "a \<in> set xs \<Longrightarrow> 0 \<le> indexOf xs a \<and> indexOf xs a < int (length xs)
     \<and> xs ! nat (indexOf xs a) = a \<and> (\<forall>j < nat (indexOf xs a). xs ! j \<noteq> a)"
  using indexOf_from_present [of a xs 0] by (simp add: indexOf_def)

lemma getGuardians_reads:
  "repo_getCachedDSMContract w (calls s) = Inr c \<Longrightarrow>
   dsm_getGuardians w (calls s @ [GetCachedDSMContract]) c blockTag = Inr guardians \<Longrightarrow>
   getGuardians w blockTag s =
     (Inr guardians, s\<lparr>calls := calls s @ [GetCachedDSMContract, GetGuardians c blockTag]\<rparr>)"
  by (simp add: getGuardians_def bindE_def await_def returnE_def)

text \<open>
  Claim C4. For every block tag, \<open>getGuardianIndex\<close> reads the guardian list from the DSM
  contract at that block and returns the zero-based index of the first occurrence of the
  wallet's address in it; the result is \<open>-1\<close> exactly when the address is not in the list.
\<close>

theorem getGuardianIndex_spec:
  assumes "repo_getCachedDSMContract w (calls s) = Inr c"
    and "dsm_getGuardians w (calls s @ [GetCachedDSMContract]) c blockTag = Inr guardians"
  shows "\<exists>i. getGuardianIndex sv w blockTag s =
            (Inr i, s\<lparr>calls := calls s @ [GetCachedDSMContract, GetGuardians c blockTag]\<rparr>)
        \<and> (i = - 1 \<longleftrightarrow> getGuardianAddress sv \<notin> set guardians)
        \<and> (getGuardianAddress sv \<in> set guardians \<longrightarrow>
             0 \<le> i \<and> i < int (length guardians) \<and> guardians ! nat i = getGuardianAddress sv
             \<and> (\<forall>j < nat i. guardians ! j \<noteq> getGuardianAddress sv))"
proof -
  let ?a = "walletService_address sv"
  have run: "getGuardianIndex sv w blockTag s =
      (Inr (indexOf guardians ?a),
       s\<lparr>calls := calls s @ [GetCachedDSMContract, GetGuardians c blockTag]\<rparr>)"
    using getGuardians_reads [OF assms]
    by (simp add: getGuardianIndex_def bindE_def returnE_def)
  show ?thesis
    using run indexOf_absent [of guardians ?a] indexOf_present [of ?a guardians]
    by (auto simp: getGuardianAddress_def)
qed

text \<open>
  The wallet \<open>0xB\<close> is the second of three guardians: its index is 1. In a list without
  it the index is \<open>-1\<close>.
\<close>

theorem getGuardianIndex_spec_witness:
  "fst (getGuardianIndex sv0 world_ok (Some (TagNumber 100)) initial_state) = Inr 1 \<and>
   fst (getGuardianIndex sv0
          (world_ok\<lparr>dsm_getGuardians := (\<lambda>h c t. Inr [''0xA'', ''0xC''])\<rparr>)
          (Some (TagNumber 100)) initial_state) = Inr (- 1)"
proof -
  let ?tag = "Some (TagNumber 100)"
  let ?w = "world_ok\<lparr>dsm_getGuardians := (\<lambda>h c t. Inr [''0xA'', ''0xC''])\<rparr>"
  have h1: "repo_getCachedDSMContract world_ok (calls initial_state) = Inr dsm0"
    and h2: "dsm_getGuardians world_ok (calls initial_state @ [GetCachedDSMContract]) dsm0 ?tag
       = Inr [''0xA'', ''0xB'', ''0xC'']"
    by (simp_all add: world_ok_def)
  have addr: "getGuardianAddress sv0 = ''0xB''"
    by (simp add: getGuardianAddress_def sv0_def)
  from getGuardianIndex_spec [OF h1 h2, of sv0] obtain i where
    run: "fst (getGuardianIndex sv0 world_ok ?tag initial_state) = Inr i"
    and there: "0 \<le> i \<and> i < 3 \<and> [''0xA'', ''0xB'', ''0xC''] ! nat i = ''0xB''"
    unfolding addr by auto
  have "nat i < 3" using there by linarith
  then consider "nat i = 0" | "nat i = 1" | "nat i = 2" by linarith
  then have "nat i = 1" using there by cases simp_all
  then have first: "fst (getGuardianIndex sv0 world_ok ?tag initial_state) = Inr 1"
    using run there by simp
  have g1: "repo_getCachedDSMContract ?w (calls initial_state) = Inr dsm0"
    and g2: "dsm_getGuardians ?w (calls initial_state @ [GetCachedDSMContract]) dsm0 ?tag
       = Inr [''0xA'', ''0xC'']"
    by (simp_all add: world_ok_def)
  from getGuardianIndex_spec [OF g1 g2, of sv0]
  have second: "fst (getGuardianIndex sv0 ?w ?tag initial_state) = Inr (- 1)"
    unfolding addr by auto
  show ?thesis using first second by simp
qed

text \<open>
  Claim C9. For every staking module id and block tag, \<open>isDepositsPaused\<close> asks the staking
  router's \<open>getStakingModuleIsActive\<close> for that module at that block and returns the
  negation of the answer: it returns a Boolean \<open>paused\<close> exactly when the router answered
  \<open>\<not> paused\<close>.
\<close>

theorem isDepositsPaused_negates:
  "(\<forall>c isActive.
      repo_getCachedStakingRouterContract w (calls s) = Inr c \<and>
      router_getStakingModuleIsActive w (calls s @ [GetCachedStakingRouterContract]) c
        stakingModuleId blockTag = Inr isActive
      \<longrightarrow>
      isDepositsPaused w stakingModuleId blockTag s =
        (Inr (\<not> isActive),
         s\<lparr>calls := calls s @ [GetCachedStakingRouterContract,
              GetStakingModuleIsActive c stakingModuleId blockTag]\<rparr>))
   \<and> (fst (isDepositsPaused w stakingModuleId blockTag s) = Inr paused \<longleftrightarrow>
       (\<exists>c. repo_getCachedStakingRouterContract w (calls s) = Inr c \<and>
          router_getStakingModuleIsActive w (calls s @ [GetCachedStakingRouterContract]) c
            stakingModuleId blockTag = Inr (\<not> paused)))"
  by (auto simp: isDepositsPaused_def bindE_def await_def returnE_def split: sum.splits)

text \<open>Module 1 is active and module 2 is not, at the latest block.\<close>

theorem isDepositsPaused_negates_witness:
  "fst (isDepositsPaused world_ok 1 (Some (TagName ''latest'')) initial_state) = Inr False \<and>
   fst (isDepositsPaused world_ok 2 (Some (TagName ''latest'')) initial_state) = Inr True \<and>
   calls (snd (isDepositsPaused world_ok 2 (Some (TagName ''latest'')) initial_state)) =
     [GetCachedStakingRouterContract,
      GetStakingModuleIsActive router0 2 (Some (TagName ''latest''))]"
proof -
  let ?tag = "Some (TagName ''latest'')"
  have h1: "repo_getCachedStakingRouterContract world_ok (calls initial_state) = Inr router0 \<and>
      router_getStakingModuleIsActive world_ok
        (calls initial_state @ [GetCachedStakingRouterContract]) router0 1 ?tag = Inr True"
    and h2: "repo_getCachedStakingRouterContract world_ok (calls initial_state) = Inr router0 \<and>
      router_getStakingModuleIsActive world_ok
        (calls initial_state @ [GetCachedStakingRouterContract]) router0 2 ?tag = Inr False"
    by (simp_all add: world_ok_def)
  from isDepositsPaused_negates
    [where w = world_ok and s = initial_state and stakingModuleId = 1 and blockTag = ?tag]
    h1
  have a: "isDepositsPaused world_ok 1 ?tag initial_state =
      (Inr (\<not> True), initial_state\<lparr>calls := calls initial_state @
         [GetCachedStakingRouterContract, GetStakingModuleIsActive router0 1 ?tag]\<rparr>)"
    by blast
  from isDepositsPaused_negates
    [where w = world_ok and s = initial_state and stakingModuleId = 2 and blockTag = ?tag]
    h2
  have b: "isDepositsPaused world_ok 2 ?tag initial_state =
      (Inr (\<not> False), initial_state\<lparr>calls := calls initial_state @
         [GetCachedStakingRouterContract, GetStakingModuleIsActive router0 2 ?tag]\<rparr>)"
    by blast
  show ?thesis
    using a b by (simp add: initial_state_def)
qed

section \<open>The provider health indicator\<close>

lemma getBlockTimestamp_run:
  "getBlockTimestamp w s =
     (Inr (case provider_getBlock w (calls s) of
             Inl e \<Rightarrow> - 1 | Inr None \<Rightarrow> - 1 | Inr (Some b) \<Rightarrow> block_timestamp b),
      s\<lparr>calls := calls s @ [ProviderGetBlock]\<rparr>)"
  by (simp add: getBlockTimestamp_def try_catch_def bindE_def await_def returnE_def throwE_def
      split: sum.splits option.splits)

lemma isHealthy_run:
  "getBlockTimestamp w s = (Inr t, s') \<Longrightarrow>
   isHealthy M w key s =
     (let now = date_now w (calls s') div 1000 in
      if \<bar>now - t\<bar> < M then (Inr (getStatus key True t now), s')
      else (Inl (HealthCheckError ''Provider check failed'' (getStatus key False t now)), s'))"
  by (simp add: isHealthy_def bindE_def getNowTimestamp_def returnE_def throwE_def Let_def)

text \<open>
  Claim C10. \<open>getBlockTimestamp\<close> never throws: it returns a number whatever the provider
  does, and that number is \<open>-1\<close> when \<open>getBlock\<close> fails. So \<open>isHealthy\<close> throws, and what
  it throws is a \<open>HealthCheckError\<close>, exactly when the distance between the current time
  in seconds and the reported block timestamp is at least \<open>MAX_BLOCK_DELAY_SECONDS\<close>;
  otherwise it returns the status \<open>up\<close>.
\<close>

theorem isHealthy_spec:
  "\<exists>t. getBlockTimestamp w s = (Inr t, s\<lparr>calls := calls s @ [ProviderGetBlock]\<rparr>)
     \<and> (\<forall>e. provider_getBlock w (calls s) = Inl e \<longrightarrow> t = - 1)
     \<and> (\<forall>b. provider_getBlock w (calls s) = Inr (Some b) \<longrightarrow> t = block_timestamp b)
     \<and> ((\<exists>e. fst (isHealthy MAX_BLOCK_DELAY_SECONDS w key s) = Inl e) \<longleftrightarrow>
          MAX_BLOCK_DELAY_SECONDS \<le> \<bar>date_now w (calls s @ [ProviderGetBlock]) div 1000 - t\<bar>)
     \<and> ((\<exists>r. fst (isHealthy MAX_BLOCK_DELAY_SECONDS w key s) =
               Inl (HealthCheckError ''Provider check failed'' r)) \<longleftrightarrow>
          MAX_BLOCK_DELAY_SECONDS \<le> \<bar>date_now w (calls s @ [ProviderGetBlock]) div 1000 - t\<bar>)
     \<and> (\<bar>date_now w (calls s @ [ProviderGetBlock]) div 1000 - t\<bar> < MAX_BLOCK_DELAY_SECONDS
          \<longrightarrow> fst (isHealthy MAX_BLOCK_DELAY_SECONDS w key s) =
                Inr \<lparr>hr_key = key, hr_status = ''up'', hr_blockTimestamp = t,
                     hr_nowTimestamp = date_now w (calls s @ [ProviderGetBlock]) div 1000\<rparr>)"
proof -
  let ?t = "case provider_getBlock w (calls s) of
              Inl e \<Rightarrow> - 1 | Inr None \<Rightarrow> - 1 | Inr (Some b) \<Rightarrow> block_timestamp b"
  let ?s' = "s\<lparr>calls := calls s @ [ProviderGetBlock]\<rparr>"
  have ts: "getBlockTimestamp w s = (Inr ?t, ?s')"
    by (rule getBlockTimestamp_run)
  have h: "isHealthy MAX_BLOCK_DELAY_SECONDS w key s =
     (let now = date_now w (calls ?s') div 1000 in
      if \<bar>now - ?t\<bar> < MAX_BLOCK_DELAY_SECONDS then (Inr (getStatus key True ?t now), ?s')
      else (Inl (HealthCheckError ''Provider check failed'' (getStatus key False ?t now)), ?s'))"
    by (rule isHealthy_run [OF ts])
  show ?thesis
  proof (intro exI [of _ ?t] conjI)
    show "getBlockTimestamp w s = (Inr ?t, ?s')" by (rule ts)
  qed (auto simp: h Let_def getStatus_def)
qed

text \<open>
  With the provider down the timestamp is \<open>-1\<close> and the check fails. With a head block
  12 seconds old the check fails for a limit of 12 seconds and passes for 13.
\<close>

theorem isHealthy_spec_witness:
  "fst (getBlockTimestamp world_down initial_state) = Inr (- 1) \<and>
   (\<exists>r. fst (isHealthy 120 world_down ''provider'' initial_state) =
      Inl (HealthCheckError ''Provider check failed'' r)) \<and>
   (\<exists>r. fst (isHealthy 12 world_ok ''provider'' initial_state) =
      Inl (HealthCheckError ''Provider check failed'' r)) \<and>
   fst (isHealthy 13 world_ok ''provider'' initial_state) =
     Inr \<lparr>hr_key = ''provider'', hr_status = ''up'', hr_blockTimestamp = 1700000000,
          hr_nowTimestamp = 1700000012\<rparr>"
proof -
  have down: "provider_getBlock world_down (calls initial_state) = Inl (Error ''timeout'')"
    and now_down: "date_now world_down (calls initial_state @ [ProviderGetBlock]) div 1000
       = 1700000012"
    by (simp_all add: world_down_def world_ok_def)
  have ok: "provider_getBlock world_ok (calls initial_state) =
      Inr (Some \<lparr>block_number = 18500000, block_hash = ''0xb10c'',
                 block_timestamp = 1700000000\<rparr>)"
    and now_ok: "date_now world_ok (calls initial_state @ [ProviderGetBlock]) div 1000
       = 1700000012"
    by (simp_all add: world_ok_def)
  from isHealthy_spec [of world_down initial_state 120 "''provider''"] down now_down
  have a: "fst (getBlockTimestamp world_down initial_state) = Inr (- 1)"
    and b: "\<exists>r. fst (isHealthy 120 world_down ''provider'' initial_state) =
      Inl (HealthCheckError ''Provider check failed'' r)"
    by auto
  from isHealthy_spec [of world_ok initial_state 12 "''provider''"] ok now_ok
  have c: "\<exists>r. fst (isHealthy 12 world_ok ''provider'' initial_state) =
      Inl (HealthCheckError ''Provider check failed'' r)"
    by auto
  from isHealthy_spec [of world_ok initial_state 13 "''provider''"] ok now_ok
  have d: "fst (isHealthy 13 world_ok ''provider'' initial_state) =
     Inr \<lparr>hr_key = ''provider'', hr_status = ''up'', hr_blockTimestamp = 1700000000,
          hr_nowTimestamp = 1700000012\<rparr>"
    by auto
  show ?thesis using a b c d by blast
qed

section \<open>The cached message prefixes\<close>

lemma cached_assign_same [simp]: "cached k (assign_cached k q s) = Some q"
  by (cases k) (simp_all add: cached_def assign_cached_def)

lemma cached_assign_other [simp]: "k \<noteq> k' \<Longrightarrow> cached k (assign_cached k' q s) = cached k s"
  by (cases k; cases k') (simp_all add: cached_def assign_cached_def)

lemma cached_calls [simp]: "cached k (s\<lparr>calls := h\<rparr>) = cached k s"
  by (cases k) (simp_all add: cached_def)

lemma calls_assign [simp]: "calls (assign_cached k q s) = calls s"
  by (cases k) (simp_all add: assign_cached_def)

lemma is_prefix_read_prefix_call [simp]: "is_prefix_read k (prefix_call k' c) = (k = k')"
  by (cases k; cases k') (simp_all add: is_prefix_read_def prefix_call_def)

lemma is_reading_simps [simp]:
  "is_reading k (GPending k' r) = (k' = k)"
  "is_reading k (GReturned k' p) = False"
  "is_reading k (GThrew k' e) = False"
  by (simp_all add: is_reading_def)

lemma kind_of_simps [simp]:
  "kind_of (GPending k r) = k" "kind_of (GReturned k p) = k" "kind_of (GThrew k e) = k"
  by (simp_all add: kind_of_def)









lemma getter_step_reads:
  "cached k (g_state g) = None \<or> cached k (g_state g) = Some [] \<Longrightarrow>
   getter_step (GCall k) g =
     Some \<lparr>g_state = (g_state g)\<lparr>calls := calls (g_state g) @ [GetCachedDSMContract]\<rparr>,
           g_calls = g_calls g @ [GPending k ReadingContract]\<rparr>"
  by (auto simp: Let_def)

text \<open>
  A call that runs alone, with the answers of a world, does what the method does: the
  same result and the same state.
\<close>

lemma getPrefix_unfold:
  "getPrefix k w s =
     (case cached k s of
        None \<Rightarrow>
          bindE (await GetCachedDSMContract (repo_getCachedDSMContract w)) (\<lambda>contract.
          bindE (await (prefix_call k contract) (\<lambda>h. dsm_MESSAGE_PREFIX k w h contract))
            (\<lambda>messagePrefix s'. (Inr messagePrefix, assign_cached k messagePrefix s'))) s
      | Some p \<Rightarrow>
          if p = [] then
            bindE (await GetCachedDSMContract (repo_getCachedDSMContract w)) (\<lambda>contract.
            bindE (await (prefix_call k contract) (\<lambda>h. dsm_MESSAGE_PREFIX k w h contract))
              (\<lambda>messagePrefix s'. (Inr messagePrefix, assign_cached k messagePrefix s'))) s
          else (Inr p, s))"
  by (cases k)
     (simp_all add: getPrefix_def cached_def prefix_call_def dsm_MESSAGE_PREFIX_def
        assign_cached_def getAttestMessagePrefix_def readAttestMessagePrefix_def
        getPauseMessagePrefix_def readPauseMessagePrefix_def
        split: option.splits)


lemma getter_alone_read:
  assumes "cached k s = None \<or> cached k s = Some []"
    and "repo_getCachedDSMContract w (calls s) = Inr c"
    and "dsm_MESSAGE_PREFIX k w (calls s @ [GetCachedDSMContract]) c = Inr q"
  shows "getPrefix k w s =
           (Inr q, assign_cached k q
              (s\<lparr>calls := calls s @ [GetCachedDSMContract, prefix_call k c]\<rparr>))"
    and "getter_run [GCall k, GSettle 0 (Inr (GContract c)), GSettle 0 (Inr (GPrefix q))]
           (getter_start s) =
         Some \<lparr>g_state = snd (getPrefix k w s), g_calls = [GReturned k q]\<rparr>"
  using assms
  by (auto simp: getPrefix_unfold getter_start_def Let_def bindE_def await_def)

lemma getter_alone_rejected:
  assumes "cached k s = None \<or> cached k s = Some []"
  shows "repo_getCachedDSMContract w (calls s) = Inl e \<Longrightarrow>
         getPrefix k w s = (Inl e, s\<lparr>calls := calls s @ [GetCachedDSMContract]\<rparr>) \<and>
         getter_run [GCall k, GSettle 0 (Inl e)] (getter_start s) =
           Some \<lparr>g_state = snd (getPrefix k w s), g_calls = [GThrew k e]\<rparr>"
    and "repo_getCachedDSMContract w (calls s) = Inr c \<Longrightarrow>
         dsm_MESSAGE_PREFIX k w (calls s @ [GetCachedDSMContract]) c = Inl e \<Longrightarrow>
         getPrefix k w s =
           (Inl e, s\<lparr>calls := calls s @ [GetCachedDSMContract, prefix_call k c]\<rparr>) \<and>
         getter_run [GCall k, GSettle 0 (Inr (GContract c)), GSettle 0 (Inl e)]
           (getter_start s) =
           Some \<lparr>g_state = snd (getPrefix k w s), g_calls = [GThrew k e]\<rparr>"
  using assms
  by (auto simp: getPrefix_unfold getter_start_def Let_def bindE_def await_def)






section \<open>The configuration options\<close>

text \<open>
  Claim C8, as amended. \<open>RPC_URL\<close> and \<open>WALLET_PRIVATE_KEY\<close> are options of the daemon's
  configuration type; \<open>CHAIN_ID\<close> is not. The compose file passes no \<open>CHAIN_ID\<close> to the
  daemon: the variable belongs to the keys-API service.
\<close>

theorem Configuration_options:
  "recognized ''RPC_URL'' \<and> recognized ''WALLET_PRIVATE_KEY'' \<and> \<not> recognized ''CHAIN_ID''
   \<and> ''CHAIN_ID'' \<notin> set council_daemon_environment
   \<and> ''CHAIN_ID'' \<in> set keys_api_service_api_environment"
  by (simp add: recognized_def Configuration_def council_daemon_environment_def
      keys_api_service_api_environment_def)

text \<open>Claim C8 as stated fails: the interface has no property \<open>CHAIN_ID\<close>.\<close>

theorem Configuration_CHAIN_ID_counterexample:
  "\<not> recognized ''CHAIN_ID'' \<and> length Configuration = 22"
  by (simp add: recognized_def Configuration_def)

section \<open>One pause submission at a time\<close>

lemma filter_update_count:
  "i < length xs \<Longrightarrow>
   length (filter P (xs[i := y])) + (if P (xs ! i) then 1 else 0) =
   length (filter P xs) + (if P y then 1 else 0)"
proof (induction xs arbitrary: i)
  case Nil
  then show ?case by simp
next
  case (Cons x xs)
  show ?case
  proof (cases i)
    case 0
    then show ?thesis by simp
  next
    case (Suc j)
    with Cons.prems have "j < length xs" by simp
    from Cons.IH [OF this] Suc show ?thesis by simp
  qed
qed

lemma in_flight_finish:
  assumes "i < length (sys_invocations sys)" and "sys_invocations sys ! i = Pending p"
    and "\<not> is_pending v"
  shows "in_flight (finish i v s sys) + 1 = in_flight sys"
  using filter_update_count [OF assms(1), of is_pending v] assms(2,3)
  by (simp add: in_flight_def finish_def is_pending_def)

lemma in_flight_suspend:
  assumes "i < length (sys_invocations sys)" and "sys_invocations sys ! i = Pending p"
  shows "in_flight (suspend i a s sys) = in_flight sys"
  using filter_update_count [OF assms(1), of is_pending "Pending a"] assms(2)
  by (simp add: in_flight_def suspend_def is_pending_def)

lemma resume_lock_inv:
  assumes "resume sv i p v s sys = Some sys'"
    and "i < length (sys_invocations sys)" and "sys_invocations sys ! i = Pending p"
    and "in_flight sys = 1" and "isExecuting s"
  shows "lock_inv sys'"
proof -
  have fin: "lock_inv (finish i Returned t sys)" for t
    using in_flight_finish [OF assms(2,3), of Returned t] assms(4)
    by (simp add: lock_inv_def finish_def is_pending_def)
  have sus: "lock_inv (suspend i a' t sys)" if "isExecuting t" for a' t
    using in_flight_suspend [OF assms(2,3), of a' t] assms(4) that
    by (simp add: lock_inv_def suspend_def)
  from assms(1) show ?thesis
    by (cases p; cases v) (use sus fin assms(5) in \<open>auto simp: Let_def\<close>)
qed

lemma step_lock_inv:
  assumes "lock_inv sys" and "step sv e sys = Some sys'"
  shows "lock_inv sys'"
proof (cases e)
  case (Invoke b m g)
  with assms show ?thesis
    by (auto simp: lock_inv_def in_flight_def is_pending_def Let_def split: if_splits)
next
  case (Settle i a)
  with assms(2) have len: "i < length (sys_invocations sys)"
    by (simp add: Let_def split: if_splits)
  from Settle assms(2) len obtain p where pend: "sys_invocations sys ! i = Pending p"
    by (cases "sys_invocations sys ! i") (simp_all add: Let_def)
  have "Pending p \<in> set (sys_invocations sys)"
    using len pend by (metis nth_mem)
  moreover have "is_pending (Pending p)"
    by (simp add: is_pending_def)
  ultimately have "filter is_pending (sys_invocations sys) \<noteq> []"
    unfolding filter_empty_conv by blast
  then have pos: "0 < in_flight sys"
    by (simp add: in_flight_def)
  with assms(1) have held: "isExecuting (sys_state sys)" and one: "in_flight sys = 1"
    by (auto simp: lock_inv_def split: if_splits)
  show ?thesis
  proof (cases a)
    case (Inl err)
    have "lock_inv (finish i (Threw err) (sys_state sys) sys)"
      using in_flight_finish [OF len pend, of "Threw err" "sys_state sys"] one
      by (simp add: lock_inv_def finish_def is_pending_def)
    with Settle Inl assms(2) len pend show ?thesis
      by (simp add: Let_def)
  next
    case (Inr v)
    with Settle assms(2) len pend
    have "resume sv i p v (sys_state sys) sys = Some sys'"
      by (simp add: Let_def)
    then show ?thesis
      by (rule resume_lock_inv [OF _ len pend one held])
  qed
qed

lemma run_lock_inv: "lock_inv sys \<Longrightarrow> run sv es sys = Some sys' \<Longrightarrow> lock_inv sys'"
  by (induction es arbitrary: sys) (auto split: option.splits dest: step_lock_inv)

lemma start_lock_inv: "lock_inv (start s)"
  by (simp add: lock_inv_def start_def in_flight_def)


text \<open>
  Run alone, with the answers a world gives, the interleaved system does what the decorated
  method does: the same state is left behind.
\<close>

lemma run_alone_agrees:
  assumes "\<not> isExecuting s"
    and "repo_getCachedDSMContract w (calls s) = Inr c"
    and "dsm_pauseDeposits w (calls s @ [GetCachedDSMContract])
           (contract_connect c
             (wallet_connect (walletService_wallet sv) (providerService_provider sv)))
           blockNumber stakingModuleId (sig_r signature) (sig_vs signature) = Inr tx"
    and "tx_wait w (calls s @ [GetCachedDSMContract,
           PauseDeposits (contract_connect c
             (wallet_connect (walletService_wallet sv) (providerService_provider sv)))
             blockNumber stakingModuleId (sig_r signature) (sig_vs signature)]) tx None
         = Inr ()"
  shows "run sv [Invoke blockNumber stakingModuleId signature, Settle 0 (Inr (AContract c)),
                 Settle 0 (Inr (ATx tx)), Settle 0 (Inr AUnit)] (start s) =
         Some \<lparr>sys_state =
                  snd (pauseDeposits_OneAtTime sv w blockNumber stakingModuleId signature s),
               sys_invocations = [Returned]\<rparr>"
proof -
  have s: "s\<lparr>isExecuting := False\<rparr> = s"
    using assms(1) by simp
  show ?thesis
    using assms
    by (simp add: pauseDeposits_OneAtTime_def OneAtTime_def pauseDeposits_run Let_def
        start_def s suspend_def finish_def)
qed

lemma run_alone_agrees_rejected:
  assumes "\<not> isExecuting s"
  shows "repo_getCachedDSMContract w (calls s) = Inl e \<Longrightarrow>
         run sv [Invoke blockNumber stakingModuleId signature, Settle 0 (Inl e)] (start s) =
         Some \<lparr>sys_state =
                  snd (pauseDeposits_OneAtTime sv w blockNumber stakingModuleId signature s),
               sys_invocations = [Threw e]\<rparr>"
    and "repo_getCachedDSMContract w (calls s) = Inr c \<Longrightarrow>
         dsm_pauseDeposits w (calls s @ [GetCachedDSMContract])
           (contract_connect c
             (wallet_connect (walletService_wallet sv) (providerService_provider sv)))
           blockNumber stakingModuleId (sig_r signature) (sig_vs signature) = Inl e \<Longrightarrow>
         run sv [Invoke blockNumber stakingModuleId signature, Settle 0 (Inr (AContract c)),
                 Settle 0 (Inl e)] (start s) =
         Some \<lparr>sys_state =
                  snd (pauseDeposits_OneAtTime sv w blockNumber stakingModuleId signature s),
               sys_invocations = [Threw e]\<rparr>"
    and "repo_getCachedDSMContract w (calls s) = Inr c \<Longrightarrow>
         dsm_pauseDeposits w (calls s @ [GetCachedDSMContract])
           (contract_connect c
             (wallet_connect (walletService_wallet sv) (providerService_provider sv)))
           blockNumber stakingModuleId (sig_r signature) (sig_vs signature) = Inr tx \<Longrightarrow>
         tx_wait w (calls s @ [GetCachedDSMContract,
           PauseDeposits (contract_connect c
             (wallet_connect (walletService_wallet sv) (providerService_provider sv)))
             blockNumber stakingModuleId (sig_r signature) (sig_vs signature)]) tx None
           = Inl e \<Longrightarrow>
         run sv [Invoke blockNumber stakingModuleId signature, Settle 0 (Inr (AContract c)),
                 Settle 0 (Inr (ATx tx)), Settle 0 (Inl e)] (start s) =
         Some \<lparr>sys_state =
                  snd (pauseDeposits_OneAtTime sv w blockNumber stakingModuleId signature s),
               sys_invocations = [Threw e]\<rparr>"
proof -
  have s: "s\<lparr>isExecuting := False\<rparr> = s"
    using assms by simp
  show "repo_getCachedDSMContract w (calls s) = Inl e \<Longrightarrow>
         run sv [Invoke blockNumber stakingModuleId signature, Settle 0 (Inl e)] (start s) =
         Some \<lparr>sys_state =
                  snd (pauseDeposits_OneAtTime sv w blockNumber stakingModuleId signature s),
               sys_invocations = [Threw e]\<rparr>"
    using assms
    by (simp add: pauseDeposits_OneAtTime_def OneAtTime_def pauseDeposits_run Let_def
        start_def s suspend_def finish_def)
  show "repo_getCachedDSMContract w (calls s) = Inr c \<Longrightarrow>
         dsm_pauseDeposits w (calls s @ [GetCachedDSMContract])
           (contract_connect c
             (wallet_connect (walletService_wallet sv) (providerService_provider sv)))
           blockNumber stakingModuleId (sig_r signature) (sig_vs signature) = Inl e \<Longrightarrow>
         run sv [Invoke blockNumber stakingModuleId signature, Settle 0 (Inr (AContract c)),
                 Settle 0 (Inl e)] (start s) =
         Some \<lparr>sys_state =
                  snd (pauseDeposits_OneAtTime sv w blockNumber stakingModuleId signature s),
               sys_invocations = [Threw e]\<rparr>"
    using assms
    by (simp add: pauseDeposits_OneAtTime_def OneAtTime_def pauseDeposits_run Let_def
        start_def s suspend_def finish_def)
  show "repo_getCachedDSMContract w (calls s) = Inr c \<Longrightarrow>
         dsm_pauseDeposits w (calls s @ [GetCachedDSMContract])
           (contract_connect c
             (wallet_connect (walletService_wallet sv) (providerService_provider sv)))
           blockNumber stakingModuleId (sig_r signature) (sig_vs signature) = Inr tx \<Longrightarrow>
         tx_wait w (calls s @ [GetCachedDSMContract,
           PauseDeposits (contract_connect c
             (wallet_connect (walletService_wallet sv) (providerService_provider sv)))
             blockNumber stakingModuleId (sig_r signature) (sig_vs signature)]) tx None
           = Inl e \<Longrightarrow>
         run sv [Invoke blockNumber stakingModuleId signature, Settle 0 (Inr (AContract c)),
                 Settle 0 (Inr (ATx tx)), Settle 0 (Inl e)] (start s) =
         Some \<lparr>sys_state =
                  snd (pauseDeposits_OneAtTime sv w blockNumber stakingModuleId signature s),
               sys_invocations = [Threw e]\<rparr>"
    using assms
    by (simp add: pauseDeposits_OneAtTime_def OneAtTime_def pauseDeposits_run Let_def
        start_def s suspend_def finish_def)
qed

text \<open>
  Claim C5. In every state the system reaches, whatever calls are made and however the
  awaited promises settle, at most one invocation of \<open>pauseDeposits\<close> is in flight, and
  the lock's flag is set exactly then. A call made while one is pending is skipped: it
  is over at once, and it issues no call and changes nothing else.
\<close>

theorem at_most_one_pause_in_flight:
  "run sv es (start s) = Some sys \<longrightarrow>
     in_flight sys \<le> 1
     \<and> (in_flight sys = 1 \<longleftrightarrow> isExecuting (sys_state sys))
     \<and> (0 < in_flight sys \<longrightarrow>
          step sv (Invoke blockNumber stakingModuleId signature) sys =
            Some (sys\<lparr>sys_invocations := sys_invocations sys @ [Skipped]\<rparr>))"
proof
  assume "run sv es (start s) = Some sys"
  then have "lock_inv sys"
    using run_lock_inv start_lock_inv by blast
  then show "in_flight sys \<le> 1
     \<and> (in_flight sys = 1 \<longleftrightarrow> isExecuting (sys_state sys))
     \<and> (0 < in_flight sys \<longrightarrow>
          step sv (Invoke blockNumber stakingModuleId signature) sys =
            Some (sys\<lparr>sys_invocations := sys_invocations sys @ [Skipped]\<rparr>))"
    by (auto simp: lock_inv_def Let_def split: if_splits)
qed

text \<open>
  A pause for block 100 has been submitted and is not confirmed yet when a pause for
  block 101 is requested: the second call is skipped, and one submission has been made.
\<close>

theorem at_most_one_pause_in_flight_witness:
  "\<exists>sys. run sv0 [Invoke 100 1 sig0, Settle 0 (Inr (AContract dsm0)), Settle 0 (Inr (ATx tx0)),
             Invoke 101 1 sig0] (start initial_state) = Some sys
     \<and> in_flight sys = 1
     \<and> sys_invocations sys = [Pending (AwaitConfirm tx0), Skipped]
     \<and> length (filter is_submission (calls (sys_state sys))) = 1"
proof -
  let ?es = "[Invoke 100 1 sig0, Settle 0 (Inr (AContract dsm0)), Settle 0 (Inr (ATx tx0))]"
  obtain sys where r: "run sv0 ?es (start initial_state) = Some sys"
    and inv: "sys_invocations sys = [Pending (AwaitConfirm tx0)]"
    and sub: "length (filter is_submission (calls (sys_state sys))) = 1"
    by (simp add: start_def initial_state_def suspend_def Let_def is_submission_def)
  have fl: "in_flight sys = 1"
    using inv by (simp add: in_flight_def is_pending_def)
  from at_most_one_pause_in_flight
    [where sv = sv0 and es = ?es and s = initial_state and sys = sys and blockNumber = 101
       and stakingModuleId = 1 and signature = sig0] r fl
  have skip: "step sv0 (Invoke 101 1 sig0) sys =
      Some (sys\<lparr>sys_invocations := sys_invocations sys @ [Skipped]\<rparr>)"
    by simp
  let ?sys' = "sys\<lparr>sys_invocations := sys_invocations sys @ [Skipped]\<rparr>"
  have "run sv0 (?es @ [Invoke 101 1 sig0]) (start initial_state) = Some ?sys'"
    using r skip
    by (simp add: start_def initial_state_def suspend_def Let_def)
  moreover have "in_flight ?sys' = 1"
    using inv by (simp add: in_flight_def is_pending_def)
  moreover have "sys_invocations ?sys' = [Pending (AwaitConfirm tx0), Skipped]"
    using inv by simp
  moreover have "length (filter is_submission (calls (sys_state ?sys'))) = 1"
    using sub by simp
  ultimately show ?thesis
    by (intro exI [of _ ?sys']) simp
qed

section \<open>Retrying a failed pause\<close>







lemma errors_logged_error [simp]: "errors_logged (logger_error e s) = errors_logged s + 1"
  by (simp add: errors_logged_def logger_error_def is_error_def)

lemma logger_error_frame [simp]:
  "calls (logger_error e s) = calls s" "isExecuting (logger_error e s) = isExecuting s"
  by (simp_all add: logger_error_def)















end
